theory Spec2Isabelle
  imports Complex_Main
begin

section \<open>The Whisper worker of Voxcribe: data model\<close>

text \<open>
  The worker (\<^verbatim>\<open>whisper.worker.js\<close>) receives an inference request from the page,
  obtains the singleton speech-recognition pipeline, runs it over the audio with two
  callbacks of a \<^verbatim>\<open>GenerationTracker\<close>, and posts messages back to the page.
  One request is followed from its message to the end of \<^verbatim>\<open>transcribe\<close>; the
  interleaving of several handlers at their \<^verbatim>\<open>await\<close>s is not part of the model.

  JavaScript numbers that carry timestamps are modelled as exact rationals: the engine
  reports timestamps in hundredths of a second, and on such values (and on the products
  and sums the tracker forms from them with the stride 5) the double arithmetic of the
  source agrees with the exact one. Counters and indices are natural numbers.
  Infinities and NaN do not occur on these inputs and are left out.
\<close>

subsection \<open>Numbers\<close>

text \<open>
  \<^verbatim>\<open>Math.round(x)\<close>: the integer closest to \<open>x\<close>; of two equally close integers the
  one nearer to plus infinity.
\<close>

definition Math_round :: "rat \<Rightarrow> int" where
  "Math_round x = \<lfloor>x + 1 / 2\<rfloor>"

text \<open>
  An absent end timestamp is \<^verbatim>\<open>null\<close> in the engine's chunks; it is \<open>None\<close> here.
  \<^verbatim>\<open>Math.round\<close> first converts its argument to a number, and \<^verbatim>\<open>null\<close> converts
  to 0.
\<close>

definition ToNumber :: "rat option \<Rightarrow> rat" where
  "ToNumber v = (case v of None \<Rightarrow> 0 | Some x \<Rightarrow> x)"

text \<open>
  \<^verbatim>\<open>a || b\<close> on numbers: \<open>a\<close> when it is truthy, that is, not zero; \<open>b\<close> otherwise.
\<close>

definition js_or :: "int \<Rightarrow> int \<Rightarrow> int" where
  "js_or a b = (if a \<noteq> 0 then a else b)"

text \<open>
  A value that is a number or \<^verbatim>\<open>undefined\<close>: what a function returns when it may
  fall off its end without a \<^verbatim>\<open>return\<close>.
\<close>

datatype jsval = Undefined | Number int

subsection \<open>Strings\<close>

text \<open>
  \<^verbatim>\<open>String.prototype.trim\<close> removes white space and line terminators from both ends.
  Strings are byte strings here, and only the white space of one byte is modelled: the
  characters 9 to 13 and the space. The other characters that \<^verbatim>\<open>trim\<close> removes
  (U+00A0, U+FEFF, U+2028, U+2029 and the space separators) are left in place by this
  model; no property below depends on them.
\<close>

definition is_white_space :: "char \<Rightarrow> bool" where
  "is_white_space c = (c \<in> set [CHR 0x09, CHR 0x0A, CHR 0x0B, CHR 0x0C, CHR 0x0D, CHR '' ''])"

definition trim :: "string \<Rightarrow> string" where
  "trim s = rev (dropWhile is_white_space (rev (dropWhile is_white_space s)))"

subsection \<open>Chunks, segments, messages\<close>

text \<open>
  A chunk as the tokenizer's \<^verbatim>\<open>_decode_asr\<close> returns it: a text and a timestamp pair
  \<^verbatim>\<open>[start, end]\<close> whose end may be absent.
\<close>

record raw_chunk =
  chunk_text :: string
  timestamp :: "rat \<times> rat option"

text \<open>The object \<^verbatim>\<open>processChunk\<close> returns.\<close>

record processed_chunk =
  index :: nat
  seg_text :: string
  start :: int
  seg_end :: int

text \<open>The object \<^verbatim>\<open>callbackFunction\<close> builds: \<^verbatim>\<open>{ text, start, end: undefined }\<close>.\<close>

record partial_result =
  partial_text :: string
  partial_start :: jsval
  partial_end :: jsval

text \<open>
  The messages the worker posts, one constructor for each \<^verbatim>\<open>self.postMessage\<close> of the
  source, named by the message type it carries:
  \<^item> \<open>LOADING status\<close> from \<^verbatim>\<open>sendLoadingMessage\<close>;
  \<^item> \<open>DOWNLOADING file progress loaded total\<close> from \<^verbatim>\<open>sendDownloadingMessage\<close>;
  \<^item> \<open>RESULT results isDone completedUntilTimestamp\<close> from \<^verbatim>\<open>createResultMessage\<close>;
  \<^item> \<open>RESULT_PARTIAL result\<close> from \<^verbatim>\<open>createPartialResultMessage\<close>;
  \<^item> \<open>INFERENCE_DONE\<close> from \<^verbatim>\<open>sendFinalResult\<close>.
\<close>

datatype message =
    LOADING string
  | DOWNLOADING string rat nat nat
  | RESULT "processed_chunk list" bool jsval
  | RESULT_PARTIAL partial_result
  | INFERENCE_DONE

text \<open>What a failing call throws.\<close>

datatype error = TypeError | EngineError string

subsection \<open>The engine\<close>

text \<open>
  The pipeline of \<^verbatim>\<open>@xenova/transformers\<close> is outside the repository. The worker uses
  four things of it, which are the fields of the record:
  \<^item> \<^verbatim>\<open>tokenizer.decode(token_ids, { skip_special_tokens: true })\<close>;
  \<^item> \<^verbatim>\<open>tokenizer._decode_asr(chunks, { time_precision, ... })\<close>, which returns a text and
    the merged timestamped chunks;
  \<^item> the two configuration numbers from which the tracker computes its time precision;
  \<^item> the call \<^verbatim>\<open>pipeline(audio, options)\<close> itself. The callbacks return nothing, so what
    the engine does on an audio buffer is a sequence of callback invocations followed
    by a normal return (\<open>None\<close>) or a throw (\<open>Some e\<close>).
\<close>

record beam =
  output_token_ids :: "nat list"

datatype 'd engine_event = Callback_function "beam list" | Chunk_callback 'd

record ('a, 'd) pipeline =
  tokenizer_decode :: "nat list \<Rightarrow> string"
  tokenizer_decode_asr :: "'d list \<Rightarrow> rat \<Rightarrow> string \<times> raw_chunk list"
  chunk_length :: rat
  max_source_positions :: rat
  run :: "'a \<Rightarrow> 'd engine_event list \<times> error option"

section \<open>The generation tracker\<close>

record ('a, 'd) GenerationTracker =
  pipeline :: "('a, 'd) pipeline"
  stride_length_s :: rat
  chunks :: "'d list"
  time_precision :: rat
  processed_chunks :: "processed_chunk list"
  callbackFunctionCounter :: nat

text \<open>
  The constructor. On an undefined pipeline the optional chain \<^verbatim>\<open>pipeline?.processor...\<close>
  yields \<^verbatim>\<open>undefined\<close>, and the read of \<^verbatim>\<open>pipeline.model\<close> that follows throws a
  TypeError.
\<close>

definition new_GenerationTracker ::
  "('a, 'd) pipeline option \<Rightarrow> rat \<Rightarrow> error + ('a, 'd) GenerationTracker" where
  "new_GenerationTracker p stride =
     (case p of
        None \<Rightarrow> Inl TypeError
      | Some pl \<Rightarrow>
          Inr \<lparr>pipeline = pl,
               stride_length_s = stride,
               chunks = [],
               time_precision = chunk_length pl / max_source_positions pl,
               processed_chunks = [],
               callbackFunctionCounter = 0\<rparr>)"

text \<open>
  \<^verbatim>\<open>getLastChunkTimestamp\<close> has one \<^verbatim>\<open>return\<close>, inside the test for the empty list;
  on a non-empty list the body ends without one and the call yields \<^verbatim>\<open>undefined\<close>.
\<close>

definition getLastChunkTimestamp :: "('a, 'd) GenerationTracker \<Rightarrow> jsval" where
  "getLastChunkTimestamp t =
     (if length (processed_chunks t) = 0 then Number 0 else Undefined)"

definition processChunk ::
  "('a, 'd) GenerationTracker \<Rightarrow> raw_chunk \<Rightarrow> nat \<Rightarrow> processed_chunk" where
  "processChunk t chunk i =
     (case timestamp chunk of
        (start_ts, end_ts) \<Rightarrow>
          \<lparr>index = i,
           seg_text = trim (chunk_text chunk),
           start = Math_round start_ts,
           seg_end = js_or (Math_round (ToNumber end_ts))
                           (Math_round (start_ts + 9 / 10 * stride_length_s t))\<rparr>)"

text \<open>\<^verbatim>\<open>chunks.map((chunk, index) => this.processChunk(chunk, index))\<close>\<close>

definition map_processChunk ::
  "('a, 'd) GenerationTracker \<Rightarrow> raw_chunk list \<Rightarrow> processed_chunk list" where
  "map_processChunk t cs = map (\<lambda>(i, chunk). processChunk t chunk i) (enumerate 0 cs)"

text \<open>
  Each callback returns the tracker it leaves behind and the messages it posted, in
  order. \<^verbatim>\<open>callbackFunction\<close> reads \<^verbatim>\<open>beams[0].output_token_ids\<close>, which throws a
  TypeError on an empty array of beams.
\<close>

definition callbackFunction ::
  "('a, 'd) GenerationTracker \<Rightarrow> beam list \<Rightarrow> error + ('a, 'd) GenerationTracker \<times> message list" where
  "callbackFunction t beams =
     (let t1 = t\<lparr>callbackFunctionCounter := callbackFunctionCounter t + 1\<rparr> in
      if callbackFunctionCounter t1 mod 10 \<noteq> 0 then Inr (t1, [])
      else
        (case beams of
           [] \<Rightarrow> Inl TypeError
         | bestBeam # _ \<Rightarrow>
             Inr (t1, [RESULT_PARTIAL
                        \<lparr>partial_text = tokenizer_decode (pipeline t1) (output_token_ids bestBeam),
                         partial_start = getLastChunkTimestamp t1,
                         partial_end = Undefined\<rparr>])))"

definition chunkCallback ::
  "('a, 'd) GenerationTracker \<Rightarrow> 'd \<Rightarrow> ('a, 'd) GenerationTracker \<times> message list" where
  "chunkCallback t data =
     (let t1 = t\<lparr>chunks := chunks t @ [data]\<rparr>;
          decoded = tokenizer_decode_asr (pipeline t1) (chunks t1) (time_precision t1);
          t2 = t1\<lparr>processed_chunks := map_processChunk t1 (snd decoded)\<rparr>
      in (t2, [RESULT (processed_chunks t2) False (getLastChunkTimestamp t2)]))"

definition sendFinalResult :: "('a, 'd) GenerationTracker \<Rightarrow> message list" where
  "sendFinalResult t = [INFERENCE_DONE]"

text \<open>
  The engine's run as the tracker sees it: the callbacks in the order the engine makes
  them. A callback that throws ends the run with its error; the messages posted before
  stay posted.
\<close>

fun dispatch ::
  "('a, 'd) GenerationTracker \<Rightarrow> 'd engine_event \<Rightarrow> error + ('a, 'd) GenerationTracker \<times> message list" where
  "dispatch t (Callback_function beams) = callbackFunction t beams"
| "dispatch t (Chunk_callback data) = Inr (chunkCallback t data)"

fun feed ::
  "('a, 'd) GenerationTracker \<Rightarrow> 'd engine_event list \<Rightarrow> message list \<times> (error + ('a, 'd) GenerationTracker)" where
  "feed t [] = ([], Inr t)"
| "feed t (e # es) =
     (case dispatch t e of
        Inl err \<Rightarrow> ([], Inl err)
      | Inr (t1, ms) \<Rightarrow> (case feed t1 es of (ms1, r) \<Rightarrow> (ms @ ms1, r)))"

section \<open>The orchestrator\<close>

subsection \<open>Message senders and the loading callback\<close>

definition sendLoadingMessage :: "string \<Rightarrow> message list" where
  "sendLoadingMessage st = [LOADING st]"

definition sendDownloadingMessage :: "string \<Rightarrow> rat \<Rightarrow> nat \<Rightarrow> nat \<Rightarrow> message list" where
  "sendDownloadingMessage f p l n = [DOWNLOADING f p l n]"

text \<open>The progress data the library hands to the progress callback.\<close>

record progress_data =
  status :: string
  file_name :: string
  progress :: rat
  loaded :: nat
  total :: nat

definition load_model_callback :: "progress_data \<Rightarrow> message list" where
  "load_model_callback data =
     (if status data = ''progress''
      then sendDownloadingMessage (file_name data) (progress data) (loaded data) (total data)
      else [])"

subsection \<open>The singleton pipeline\<close>

text \<open>
  \<^verbatim>\<open>MyTranscriptionPipeline\<close> has two constant static fields and the instance slot,
  which is the only state that outlives a request. The library's \<^verbatim>\<open>pipeline(task,
  model, { progress_callback })\<close> is outside the repository: it is a parameter
  \<open>pipeline_fn\<close>, which for a task and a model identifier (\<open>None\<close> for \<^verbatim>\<open>null\<close>) gives the
  progress data it reports and the pipeline it returns or the error it throws.
\<close>

definition task :: string where
  "task = ''automatic-speech-recognition''"

definition model :: string where
  "model = ''openai/whisper-tiny.en''"

type_synonym ('a, 'd) pipeline_fn =
  "string \<Rightarrow> string option \<Rightarrow> progress_data list \<times> (error + ('a, 'd) pipeline)"

text \<open>
  \<open>getInstance\<close> returns the instance slot it leaves, the messages the progress callback
  posted, and the pipeline or the error.
\<close>

definition getInstance ::
  "('a, 'd) pipeline_fn \<Rightarrow> (progress_data \<Rightarrow> message list) \<Rightarrow> ('a, 'd) pipeline option
     \<Rightarrow> ('a, 'd) pipeline option \<times> message list \<times> (error + ('a, 'd) pipeline)" where
  "getInstance pipeline_fn progress_callback inst =
     (case inst of
        None \<Rightarrow>
          (case pipeline_fn task None of
             (ds, Inl err) \<Rightarrow> (None, concat (map progress_callback ds), Inl err)
           | (ds, Inr p) \<Rightarrow> (Some p, concat (map progress_callback ds), Inr p))
      | Some p \<Rightarrow> (Some p, [], Inr p))"

subsection \<open>One request\<close>

text \<open>
  \<open>transcribe\<close> returns the instance slot, the messages posted in order, and \<open>Inr ()\<close>
  when it returns or \<open>Inl e\<close> when \<open>e\<close> leaves it as an exception. An error of
  \<open>getInstance\<close> is caught and logged, and the code goes on with an undefined pipeline.
\<close>

definition transcribe ::
  "('a, 'd) pipeline_fn \<Rightarrow> ('a, 'd) pipeline option \<Rightarrow> 'a
     \<Rightarrow> ('a, 'd) pipeline option \<times> message list \<times> (error + unit)" where
  "transcribe pipeline_fn inst audio_buf =
     (let m0 = sendLoadingMessage ''loading'' in
      case getInstance pipeline_fn load_model_callback inst of
        (inst1, m1, got) \<Rightarrow>
          (let pipeline_var = (case got of Inl err \<Rightarrow> None | Inr p \<Rightarrow> Some p);
               m2 = sendLoadingMessage ''success'';
               stride = 5
           in case new_GenerationTracker pipeline_var stride of
                Inl e \<Rightarrow> (inst1, m0 @ m1 @ m2, Inl e)
              | Inr generationTracker \<Rightarrow>
                  (case run (pipeline generationTracker) audio_buf of
                     (events, thrown) \<Rightarrow>
                       (case feed generationTracker events of
                          (m3, Inl e) \<Rightarrow> (inst1, m0 @ m1 @ m2 @ m3, Inl e)
                        | (m3, Inr tracker1) \<Rightarrow>
                            (case thrown of
                               Some e \<Rightarrow> (inst1, m0 @ m1 @ m2 @ m3, Inl e)
                             | None \<Rightarrow>
                                 (inst1, m0 @ m1 @ m2 @ m3 @ sendFinalResult tracker1, Inr ()))))))"

subsection \<open>The message handler\<close>

text \<open>
  The page posts \<^verbatim>\<open>{ type, audio, model_name }\<close>. The handler destructures
  \<^verbatim>\<open>type\<close> and \<^verbatim>\<open>audio\<close> only. The constant \<^verbatim>\<open>MessageTypes.INFERENCE_REQUEST\<close>
  comes from a module outside the sources at hand and is a parameter.
\<close>

record 'a inference_request =
  request_type :: string
  audio :: 'a
  model_name :: string

definition onmessage ::
  "string \<Rightarrow> ('a, 'd) pipeline_fn \<Rightarrow> ('a, 'd) pipeline option \<Rightarrow> 'a inference_request
     \<Rightarrow> ('a, 'd) pipeline option \<times> message list \<times> (error + unit)" where
  "onmessage INFERENCE_REQUEST pipeline_fn inst event_data =
     (if request_type event_data = INFERENCE_REQUEST
      then transcribe pipeline_fn inst (audio event_data)
      else (inst, [], Inr ()))"

subsection \<open>A scripted engine\<close>

text \<open>
  For concrete runs: an engine whose audio buffer is its own script (the callbacks to
  make and how the run ends), whose chunk data are timestamped chunks that the merge
  step returns unchanged, and whose token decoder maps every token to a letter.
\<close>

type_synonym script = "raw_chunk engine_event list \<times> error option"

definition scripted_pipeline :: "(script, raw_chunk) pipeline" where
  "scripted_pipeline =
     \<lparr>tokenizer_decode = map (\<lambda>n. CHR ''a''),
      tokenizer_decode_asr = (\<lambda>cs tp. (concat (map chunk_text cs), cs)),
      chunk_length = 30,
      max_source_positions = 1500,
      run = (\<lambda>a. a)\<rparr>"

definition scripted_tracker :: "(script, raw_chunk) GenerationTracker" where
  "scripted_tracker =
     \<lparr>pipeline = scripted_pipeline,
      stride_length_s = 5,
      chunks = [],
      time_precision = 30 / 1500,
      processed_chunks = [],
      callbackFunctionCounter = 0\<rparr>"


definition scripted_pipeline_fn :: "(script, raw_chunk) pipeline_fn" where
  "scripted_pipeline_fn tk mdl = ([], Inr scripted_pipeline)"

text \<open>
  A second engine for concrete runs, nearer to the library's: each finalized chunk of
  the engine carries the timestamped segments recognised in it, and the merge step
  returns the segments of all chunks in order.
\<close>

definition segmenting_pipeline :: "(unit, raw_chunk list) pipeline" where
  "segmenting_pipeline =
     \<lparr>tokenizer_decode = map (\<lambda>n. CHR ''a''),
      tokenizer_decode_asr = (\<lambda>ds tp. (concat (map chunk_text (concat ds)), concat ds)),
      chunk_length = 30,
      max_source_positions = 1500,
      run = (\<lambda>a. ([], None))\<rparr>"

definition segmenting_tracker :: "(unit, raw_chunk list) GenerationTracker" where
  "segmenting_tracker =
     \<lparr>pipeline = segmenting_pipeline,
      stride_length_s = 5,
      chunks = [],
      time_precision = 30 / 1500,
      processed_chunks = [],
      callbackFunctionCounter = 0\<rparr>"

subsection \<open>Predicates on inputs and messages\<close>



text \<open>A chunk whose end timestamp, when present, is not before its start.\<close>

definition end_not_before_start :: "raw_chunk \<Rightarrow> bool" where
  "end_not_before_start c =
     (case snd (timestamp c) of None \<Rightarrow> True | Some e \<Rightarrow> fst (timestamp c) \<le> e)"



section \<open>Properties\<close>

subsection \<open>Rounding\<close>

lemma Math_round_eq_iff:
  "Math_round x = z \<longleftrightarrow> of_int z \<le> x + 1 / 2 \<and> x + 1 / 2 < of_int z + 1"
  by (simp add: Math_round_def floor_eq_iff)

lemma Math_round_0: "Math_round 0 = 0"
  by (simp add: Math_round_eq_iff)

lemma Math_round_mono: "x \<le> y \<Longrightarrow> Math_round x \<le> Math_round y"
  by (simp add: Math_round_def floor_mono)

subsection \<open>The chunk callback\<close>

lemma length_map_processChunk: "length (map_processChunk t cs) = length cs"
  by (simp add: map_processChunk_def)

lemma index_map_processChunk: "map index (map_processChunk t cs) = [0..<length cs]"
proof -
  have "map index (map_processChunk t cs) = map fst (enumerate 0 cs)"
    by (simp add: map_processChunk_def processChunk_def split_def comp_def)
  then show ?thesis by simp
qed

lemma processed_chunks_chunkCallback:
  "processed_chunks (fst (chunkCallback t d)) =
     map_processChunk (t\<lparr>chunks := chunks t @ [d]\<rparr>)
       (snd (tokenizer_decode_asr (pipeline t) (chunks t @ [d]) (time_precision t)))"
  by (simp add: chunkCallback_def Let_def)

lemma chunks_chunkCallback: "chunks (fst (chunkCallback t d)) = chunks t @ [d]"
  by (simp add: chunkCallback_def Let_def)

lemma length_snd_chunkCallback: "length (snd (chunkCallback t d)) = 1"
  by (simp add: chunkCallback_def Let_def)

lemma feed_Chunk_callback:
  "feed t (Chunk_callback d # es) =
     (snd (chunkCallback t d) @ fst (feed (fst (chunkCallback t d)) es),
      snd (feed (fst (chunkCallback t d)) es))"
  by (cases "chunkCallback t d") (simp add: split_def)

lemma feed_chunks_only:
  "snd (feed t (map Chunk_callback ds)) = Inr tr \<Longrightarrow> chunks tr = chunks t @ ds"
proof (induction ds arbitrary: t)
  case Nil
  then show ?case by simp
next
  case (Cons d ds)
  from Cons.prems have "snd (feed (fst (chunkCallback t d)) (map Chunk_callback ds)) = Inr tr"
    by (simp add: feed_Chunk_callback del: feed.simps)
  then have "chunks tr = chunks (fst (chunkCallback t d)) @ ds" by (rule Cons.IH)
  then show ?case by (simp add: chunks_chunkCallback)
qed

lemma feed_chunks_returns:
  "\<exists>tr. snd (feed t (map Chunk_callback ds)) = Inr tr"
  by (induction ds arbitrary: t) (simp_all add: feed_Chunk_callback del: feed.simps(2))

lemma map_processChunk_stride:
  "stride_length_s a = stride_length_s b \<Longrightarrow> map_processChunk a cs = map_processChunk b cs"
  by (simp add: map_processChunk_def processChunk_def)

lemma map_processChunk_nth:
  "map_processChunk t cs
     = map (\<lambda>i. \<lparr>index = i,
                  seg_text = trim (chunk_text (cs ! i)),
                  start = Math_round (fst (timestamp (cs ! i))),
                  seg_end = js_or (Math_round (ToNumber (snd (timestamp (cs ! i)))))
                              (Math_round (fst (timestamp (cs ! i)) + 9 / 10 * stride_length_s t))\<rparr>)
         [0..<length cs]"
  by (rule nth_equalityI)
     (simp_all add: map_processChunk_def processChunk_def nth_enumerate_eq split_def)

lemma chunkCallback_eq:
  "chunkCallback t d =
     (t\<lparr>chunks := chunks t @ [d],
        processed_chunks :=
          map_processChunk t (snd (tokenizer_decode_asr (pipeline t) (chunks t @ [d]) (time_precision t)))\<rparr>,
      [RESULT (map_processChunk t (snd (tokenizer_decode_asr (pipeline t) (chunks t @ [d]) (time_precision t))))
         False
         (getLastChunkTimestamp
            (t\<lparr>processed_chunks :=
                 map_processChunk t (snd (tokenizer_decode_asr (pipeline t) (chunks t @ [d]) (time_precision t)))\<rparr>))])"
  by (simp add: chunkCallback_def Let_def getLastChunkTimestamp_def
      map_processChunk_stride [of "t\<lparr>chunks := chunks t @ [d]\<rparr>" t])

lemma chunkCallback_fields:
  "pipeline (fst (chunkCallback t d)) = pipeline t
   \<and> time_precision (fst (chunkCallback t d)) = time_precision t
   \<and> stride_length_s (fst (chunkCallback t d)) = stride_length_s t"
  by (simp add: chunkCallback_def Let_def)

lemma feed_chunks_processed:
  "ds \<noteq> [] \<Longrightarrow> snd (feed t (map Chunk_callback ds)) = Inr tr \<Longrightarrow>
   processed_chunks tr
     = map_processChunk t (snd (tokenizer_decode_asr (pipeline t) (chunks t @ ds) (time_precision t)))"
proof (induction ds arbitrary: t)
  case Nil
  then show ?case by simp
next
  case (Cons d ds)
  let ?t1 = "fst (chunkCallback t d)"
  from Cons.prems(2) have r: "snd (feed ?t1 (map Chunk_callback ds)) = Inr tr"
    by (simp add: feed_Chunk_callback del: feed.simps)
  have st: "map_processChunk ?t1 = map_processChunk t"
    by (rule ext, rule map_processChunk_stride) (simp add: chunkCallback_fields)
  show ?case
  proof (cases "ds = []")
    case True
    with r have "tr = ?t1" by simp
    then show ?thesis
      using True st
      by (simp add: processed_chunks_chunkCallback map_processChunk_stride [of "t\<lparr>chunks := chunks t @ [d]\<rparr>" t])
  next
    case False
    from Cons.IH [OF False r] show ?thesis
      by (simp add: st chunkCallback_fields chunks_chunkCallback)
  qed
qed

subsection \<open>The beam callback\<close>

lemma callbackFunction_Cons:
  "callbackFunction t (b # rest) =
     Inr (t\<lparr>callbackFunctionCounter := callbackFunctionCounter t + 1\<rparr>,
          if (callbackFunctionCounter t + 1) mod 10 = 0
          then [RESULT_PARTIAL
                 \<lparr>partial_text = tokenizer_decode (pipeline t) (output_token_ids b),
                  partial_start = getLastChunkTimestamp t,
                  partial_end = Undefined\<rparr>]
          else [])"
  by (simp add: callbackFunction_def Let_def getLastChunkTimestamp_def)

lemma feed_Callback_function_Cons:
  "feed t (Callback_function (b # rest) # es) =
     ((if (callbackFunctionCounter t + 1) mod 10 = 0
       then [RESULT_PARTIAL
              \<lparr>partial_text = tokenizer_decode (pipeline t) (output_token_ids b),
               partial_start = getLastChunkTimestamp t,
               partial_end = Undefined\<rparr>]
       else [])
      @ fst (feed (t\<lparr>callbackFunctionCounter := callbackFunctionCounter t + 1\<rparr>) es),
      snd (feed (t\<lparr>callbackFunctionCounter := callbackFunctionCounter t + 1\<rparr>) es))"
  by (simp add: callbackFunction_Cons split_def)

lemma div10_step:
  fixes c n :: nat
  shows "(if (c + 1) mod 10 = 0 then 1 else 0) + ((c + 1 + n) div 10 - (c + 1) div 10)
           = (c + Suc n) div 10 - c div 10"
proof -
  have a: "(c + 1) div 10 = c div 10 + (if (c + 1) mod 10 = 0 then 1 else 0)"
    by (simp add: div_Suc)
  have b: "(c + 1) div 10 \<le> (c + 1 + n) div 10"
    by (rule div_le_mono) simp
  show ?thesis
    using a b by (simp split: if_splits)
qed

lemma feed_beams_count:
  "[] \<notin> set bs \<Longrightarrow>
   length (fst (feed t (map Callback_function bs)))
     = (callbackFunctionCounter t + length bs) div 10 - callbackFunctionCounter t div 10"
proof (induction bs arbitrary: t)
  case Nil
  then show ?case by simp
next
  case (Cons b bs)
  then obtain x xs where b: "b = x # xs" by (cases b) auto
  from Cons.prems have "[] \<notin> set bs" by simp
  then have IH: "length (fst (feed (t\<lparr>callbackFunctionCounter := callbackFunctionCounter t + 1\<rparr>)
                   (map Callback_function bs)))
      = (callbackFunctionCounter t + 1 + length bs) div 10 - (callbackFunctionCounter t + 1) div 10"
    using Cons.IH [of "t\<lparr>callbackFunctionCounter := callbackFunctionCounter t + 1\<rparr>"] by simp
  have "length (fst (feed t (map Callback_function (b # bs))))
      = (if (callbackFunctionCounter t + 1) mod 10 = 0 then 1 else 0)
        + ((callbackFunctionCounter t + 1 + length bs) div 10 - (callbackFunctionCounter t + 1) div 10)"
    unfolding b list.map feed_Callback_function_Cons fst_conv length_append IH
    by simp
  then show ?case
    by (simp only: div10_step) simp
qed

lemma feed_beams_counter:
  "[] \<notin> set bs \<Longrightarrow>
   snd (feed t (map Callback_function bs))
     = Inr (t\<lparr>callbackFunctionCounter := callbackFunctionCounter t + length bs\<rparr>)"
proof (induction bs arbitrary: t)
  case Nil
  then show ?case by simp
next
  case (Cons b bs)
  then obtain x xs where b: "b = x # xs" by (cases b) auto
  from Cons.prems have "[] \<notin> set bs" by simp
  then show ?case
    unfolding b list.map feed_Callback_function_Cons snd_conv
    by (simp add: Cons.IH)
qed

subsection \<open>The orchestrator\<close>

lemma new_GenerationTracker_scripted:
  "new_GenerationTracker (Some scripted_pipeline) 5 = Inr scripted_tracker"
  by (simp add: new_GenerationTracker_def scripted_tracker_def scripted_pipeline_def)











lemma transcribe_returns:
  assumes "getInstance pf load_model_callback inst = (inst1, m1, Inr p)"
    and "new_GenerationTracker (Some p) 5 = Inr tr0"
    and "run p audio_buf = (es, None)"
    and "feed tr0 es = (ms, Inr tr1)"
  shows "transcribe pf inst audio_buf
           = (inst1, LOADING ''loading'' # m1 @ [LOADING ''success''] @ ms @ [INFERENCE_DONE], Inr ())"
proof -
  from assms(2) have p: "pipeline tr0 = p"
    by (auto simp: new_GenerationTracker_def)
  show ?thesis
    using assms
    by (simp add: transcribe_def Let_def sendLoadingMessage_def p sendFinalResult_def)
qed







subsection \<open>Claims\<close>

text \<open>
  C1. The claim: the \<open>start\<close> of a partial result and the \<open>completedUntilTimestamp\<close> of a
  result message equal the start of the most recently finalized segment when the
  list of processed chunks is non-empty, and 0 when it is empty. The code returns 0 on
  the empty list and \<^verbatim>\<open>undefined\<close> otherwise: after one finalized chunk that starts
  at second 3, the result message carries \<open>Undefined\<close>, not 3, and so does the
  partial result of the tenth beam callback that follows; before any chunk the
  partial result carries 0.
\<close>

theorem C1_last_chunk_timestamp_undefined:
  "snd (chunkCallback scripted_tracker \<lparr>chunk_text = ''hello world'', timestamp = (3, Some 5)\<rparr>)
     = [RESULT [\<lparr>index = 0, seg_text = ''hello world'', start = 3, seg_end = 5\<rparr>] False Undefined]
   \<and> getLastChunkTimestamp
        (fst (chunkCallback scripted_tracker \<lparr>chunk_text = ''hello world'', timestamp = (3, Some 5)\<rparr>))
     = Undefined
   \<and> getLastChunkTimestamp scripted_tracker = Number 0
   \<and> fst (feed scripted_tracker
        (Chunk_callback \<lparr>chunk_text = ''hello world'', timestamp = (3, Some 5)\<rparr>
         # replicate 10 (Callback_function [\<lparr>output_token_ids = [7, 8]\<rparr>])))
     = [RESULT [\<lparr>index = 0, seg_text = ''hello world'', start = 3, seg_end = 5\<rparr>] False Undefined,
        RESULT_PARTIAL \<lparr>partial_text = ''aa'', partial_start = Undefined, partial_end = Undefined\<rparr>]
   \<and> fst (feed scripted_tracker (replicate 10 (Callback_function [\<lparr>output_token_ids = [7, 8]\<rparr>])))
     = [RESULT_PARTIAL \<lparr>partial_text = ''aa'', partial_start = Number 0, partial_end = Undefined\<rparr>]"
  by code_simp

text \<open>
  C2. The claim: a finalized chunk whose end is present but before its start is reported
  as an error and ends the accumulation. The code has no such check. Here the second
  of three chunks runs from second 5 to second 2: it becomes a segment with start 5 and
  end 2, and the third chunk is accumulated and processed after it.
\<close>

theorem C2_counterexample:
  "fst (feed scripted_tracker
      [Chunk_callback \<lparr>chunk_text = ''a'', timestamp = (0, Some 2)\<rparr>,
       Chunk_callback \<lparr>chunk_text = ''bad'', timestamp = (5, Some 2)\<rparr>,
       Chunk_callback \<lparr>chunk_text = ''c'', timestamp = (6, Some 8)\<rparr>])
   = [RESULT [\<lparr>index = 0, seg_text = ''a'', start = 0, seg_end = 2\<rparr>] False Undefined,
      RESULT [\<lparr>index = 0, seg_text = ''a'', start = 0, seg_end = 2\<rparr>,
              \<lparr>index = 1, seg_text = ''bad'', start = 5, seg_end = 2\<rparr>] False Undefined,
      RESULT [\<lparr>index = 0, seg_text = ''a'', start = 0, seg_end = 2\<rparr>,
              \<lparr>index = 1, seg_text = ''bad'', start = 5, seg_end = 2\<rparr>,
              \<lparr>index = 2, seg_text = ''c'', start = 6, seg_end = 8\<rparr>] False Undefined]
   \<and> map_sum id chunks (snd (feed scripted_tracker
      [Chunk_callback \<lparr>chunk_text = ''a'', timestamp = (0, Some 2)\<rparr>,
       Chunk_callback \<lparr>chunk_text = ''bad'', timestamp = (5, Some 2)\<rparr>,
       Chunk_callback \<lparr>chunk_text = ''c'', timestamp = (6, Some 8)\<rparr>]))
   = Inr [\<lparr>chunk_text = ''a'', timestamp = (0, Some 2)\<rparr>,
          \<lparr>chunk_text = ''bad'', timestamp = (5, Some 2)\<rparr>,
          \<lparr>chunk_text = ''c'', timestamp = (6, Some 8)\<rparr>]"
  by code_simp

text \<open>
  C2, as the code has it. A finalized chunk whose end is present, before its start or
  not, is processed like every other chunk. The chunk callback appends the data to the
  accumulation list, derives one segment for each chunk the merge step returns, and
  posts one result message with that segment list and \<open>isDone = False\<close>; the segment of
  such a chunk has the rounded start and the rounded end (or the stride fallback when
  that is 0), with no comparison of the two. The run goes on with the callbacks that
  follow, so a run of chunk callbacks never throws and keeps all the data in order.
  When the engine's run returns, the done message, which has no payload, follows the
  messages of the run.
\<close>

theorem C2_no_malformed_chunk_check:
  assumes "cs = snd (tokenizer_decode_asr (pipeline t) (chunks t @ [d]) (time_precision t))"
    and "i < length cs"
    and "cs ! i = \<lparr>chunk_text = tx, timestamp = (s, Some e)\<rparr>"
    and "getInstance pf load_model_callback inst = (inst1, m1, Inr p)"
    and "new_GenerationTracker (Some p) 5 = Inr tr0"
    and "run p audio_buf = (es, None)"
    and "feed tr0 es = (ms, Inr tr1)"
  shows "chunks (fst (chunkCallback t d)) = chunks t @ [d]
   \<and> length (processed_chunks (fst (chunkCallback t d))) = length cs
   \<and> processed_chunks (fst (chunkCallback t d)) ! i
       = \<lparr>index = i, seg_text = trim tx, start = Math_round s,
          seg_end = js_or (Math_round e) (Math_round (s + 9 / 10 * stride_length_s t))\<rparr>
   \<and> (\<exists>ts. snd (chunkCallback t d)
              = [RESULT (processed_chunks (fst (chunkCallback t d))) False ts])
   \<and> feed t (Chunk_callback d # rest)
       = (snd (chunkCallback t d) @ fst (feed (fst (chunkCallback t d)) rest),
          snd (feed (fst (chunkCallback t d)) rest))
   \<and> feed t [] = ([], Inr t)
   \<and> (\<exists>tr. snd (feed t (map Chunk_callback ds)) = Inr tr \<and> chunks tr = chunks t @ ds)
   \<and> transcribe pf inst audio_buf
       = (inst1, LOADING ''loading'' # m1 @ [LOADING ''success''] @ ms @ [INFERENCE_DONE], Inr ())"
proof -
  have pc: "processed_chunks (fst (chunkCallback t d)) = map_processChunk t cs"
    by (simp add: chunkCallback_eq assms(1))
  have 1: "chunks (fst (chunkCallback t d)) = chunks t @ [d]"
    by (rule chunks_chunkCallback)
  have 2: "length (processed_chunks (fst (chunkCallback t d))) = length cs"
    by (simp add: pc length_map_processChunk)
  have 3: "processed_chunks (fst (chunkCallback t d)) ! i
       = \<lparr>index = i, seg_text = trim tx, start = Math_round s,
          seg_end = js_or (Math_round e) (Math_round (s + 9 / 10 * stride_length_s t))\<rparr>"
    unfolding pc map_processChunk_nth using assms(2,3) by (simp add: ToNumber_def)
  have 4: "\<exists>ts. snd (chunkCallback t d)
              = [RESULT (processed_chunks (fst (chunkCallback t d))) False ts]"
    by (simp add: chunkCallback_eq)
  have 5: "feed t (Chunk_callback d # rest)
       = (snd (chunkCallback t d) @ fst (feed (fst (chunkCallback t d)) rest),
          snd (feed (fst (chunkCallback t d)) rest))"
    by (rule feed_Chunk_callback)
  have 6: "feed t [] = ([], Inr t)" by simp
  obtain tr where r: "snd (feed t (map Chunk_callback ds)) = Inr tr"
    using feed_chunks_returns by blast
  then have "chunks tr = chunks t @ ds" by (rule feed_chunks_only)
  with r have 7: "\<exists>tr. snd (feed t (map Chunk_callback ds)) = Inr tr \<and> chunks tr = chunks t @ ds"
    by blast
  have 8: "transcribe pf inst audio_buf
       = (inst1, LOADING ''loading'' # m1 @ [LOADING ''success''] @ ms @ [INFERENCE_DONE], Inr ())"
    using assms(4-7) by (rule transcribe_returns)
  show ?thesis
    by (intro conjI) (rule 1, rule 2, rule 3, rule 4, rule 5, rule 6, rule 7, rule 8)
qed

theorem C2_no_malformed_chunk_check_witness:
  "snd (tokenizer_decode_asr (pipeline scripted_tracker)
          (chunks scripted_tracker @ [\<lparr>chunk_text = ''bad'', timestamp = (5, Some 2)\<rparr>])
          (time_precision scripted_tracker)) ! 0
     = \<lparr>chunk_text = ''bad'', timestamp = (5, Some 2)\<rparr>
   \<and> getInstance scripted_pipeline_fn load_model_callback None
       = (Some scripted_pipeline, [], Inr scripted_pipeline)
   \<and> new_GenerationTracker (Some scripted_pipeline) 5 = Inr scripted_tracker
   \<and> processed_chunks
        (fst (chunkCallback scripted_tracker \<lparr>chunk_text = ''bad'', timestamp = (5, Some 2)\<rparr>)) ! 0
       = \<lparr>index = 0, seg_text = ''bad'', start = 5, seg_end = 2\<rparr>
   \<and> snd (transcribe scripted_pipeline_fn None
        ([Chunk_callback \<lparr>chunk_text = ''a'', timestamp = (0, Some 2)\<rparr>,
          Chunk_callback \<lparr>chunk_text = ''bad'', timestamp = (5, Some 2)\<rparr>,
          Chunk_callback \<lparr>chunk_text = ''c'', timestamp = (6, Some 8)\<rparr>], None))
       = ([LOADING ''loading'', LOADING ''success'',
           RESULT [\<lparr>index = 0, seg_text = ''a'', start = 0, seg_end = 2\<rparr>] False Undefined,
           RESULT [\<lparr>index = 0, seg_text = ''a'', start = 0, seg_end = 2\<rparr>,
                   \<lparr>index = 1, seg_text = ''bad'', start = 5, seg_end = 2\<rparr>] False Undefined,
           RESULT [\<lparr>index = 0, seg_text = ''a'', start = 0, seg_end = 2\<rparr>,
                   \<lparr>index = 1, seg_text = ''bad'', start = 5, seg_end = 2\<rparr>,
                   \<lparr>index = 2, seg_text = ''c'', start = 6, seg_end = 8\<rparr>] False Undefined,
           INFERENCE_DONE],
          Inr ())"
proof -
  let ?bad = "\<lparr>chunk_text = ''bad'', timestamp = (5, Some 2)\<rparr>"
  let ?es = "[Chunk_callback \<lparr>chunk_text = ''a'', timestamp = (0, Some 2)\<rparr>,
          Chunk_callback ?bad,
          Chunk_callback \<lparr>chunk_text = ''c'', timestamp = (6, Some 8)\<rparr>]"
  let ?ms = "[RESULT [\<lparr>index = 0, seg_text = ''a'', start = 0, seg_end = 2\<rparr>] False Undefined,
           RESULT [\<lparr>index = 0, seg_text = ''a'', start = 0, seg_end = 2\<rparr>,
                   \<lparr>index = 1, seg_text = ''bad'', start = 5, seg_end = 2\<rparr>] False Undefined,
           RESULT [\<lparr>index = 0, seg_text = ''a'', start = 0, seg_end = 2\<rparr>,
                   \<lparr>index = 1, seg_text = ''bad'', start = 5, seg_end = 2\<rparr>,
                   \<lparr>index = 2, seg_text = ''c'', start = 6, seg_end = 8\<rparr>] False Undefined]"
  have cs: "[?bad] = snd (tokenizer_decode_asr (pipeline scripted_tracker)
          (chunks scripted_tracker @ [?bad]) (time_precision scripted_tracker))"
    by (simp add: scripted_tracker_def scripted_pipeline_def)
  have i: "0 < length [?bad]" by simp
  have c: "[?bad] ! 0 = \<lparr>chunk_text = ''bad'', timestamp = (5, Some 2)\<rparr>" by simp
  have g: "getInstance scripted_pipeline_fn load_model_callback None
       = (Some scripted_pipeline, [], Inr scripted_pipeline)"
    by (simp add: getInstance_def scripted_pipeline_fn_def)
  have n: "new_GenerationTracker (Some scripted_pipeline) 5 = Inr scripted_tracker"
    by (rule new_GenerationTracker_scripted)
  have r: "run scripted_pipeline (?es, None) = (?es, None)"
    by (simp add: scripted_pipeline_def)
  have m: "fst (feed scripted_tracker ?es) = ?ms" by code_simp
  obtain tr1 where "snd (feed scripted_tracker (map Chunk_callback
        [\<lparr>chunk_text = ''a'', timestamp = (0, Some 2)\<rparr>, ?bad,
         \<lparr>chunk_text = ''c'', timestamp = (6, Some 8)\<rparr>])) = Inr tr1"
    using feed_chunks_returns by blast
  then have s: "snd (feed scripted_tracker ?es) = Inr tr1"
    by (simp only: list.map)
  have f: "feed scripted_tracker ?es = (?ms, Inr tr1)"
    using m s by (simp only: prod_eq_iff fst_conv snd_conv simp_thms)
  note c2 = C2_no_malformed_chunk_check [OF cs i c g n r f]
  have v: "Math_round 5 = 5" "Math_round 2 = 2"
    by (simp_all add: Math_round_eq_iff)
  from c2 have seg: "processed_chunks (fst (chunkCallback scripted_tracker ?bad)) ! 0
       = \<lparr>index = 0, seg_text = trim ''bad'', start = Math_round 5,
          seg_end = js_or (Math_round 2)
            (Math_round (5 + 9 / 10 * stride_length_s scripted_tracker))\<rparr>"
    by blast
  have seg': "processed_chunks (fst (chunkCallback scripted_tracker ?bad)) ! 0
       = \<lparr>index = 0, seg_text = ''bad'', start = 5, seg_end = 2\<rparr>"
    unfolding seg by (simp add: v js_or_def trim_def is_white_space_def)
  from c2 have "transcribe scripted_pipeline_fn None (?es, None)
       = (Some scripted_pipeline,
          LOADING ''loading'' # [] @ [LOADING ''success''] @ ?ms @ [INFERENCE_DONE], Inr ())"
    by blast
  then have tr: "snd (transcribe scripted_pipeline_fn None (?es, None))
       = ([LOADING ''loading'', LOADING ''success''] @ ?ms @ [INFERENCE_DONE], Inr ())"
    by simp
  show ?thesis
    using cs [symmetric] g n seg' tr by simp
qed






text \<open>
  C4. For a chunk whose end timestamp is absent, the segment's end is
  \<open>Math_round (start + 0.9 * stride_length_s)\<close>; for the chunk \<open>''partial''\<close> starting at
  second 1 with stride 5 it is \<open>Math_round 5.5 = 6\<close>.
\<close>

theorem C4_absent_end_fallback:
  "seg_end (processChunk t \<lparr>chunk_text = tx, timestamp = (s, None)\<rparr> i)
     = Math_round (s + 9 / 10 * stride_length_s t)
   \<and> seg_end (processChunk (t\<lparr>stride_length_s := 5\<rparr>)
         \<lparr>chunk_text = ''partial'', timestamp = (1, None)\<rparr> i) = 6
   \<and> Math_round (11 / 2) = 6"
proof -
  have r: "Math_round (11 / 2) = 6" by (simp add: Math_round_eq_iff)
  then show ?thesis
    by (simp add: processChunk_def ToNumber_def js_or_def Math_round_0)
qed

text \<open>
  C5. The claim: every segment has \<open>end \<ge> start\<close>. A chunk from second 5 to second 2
  gives a segment with start 5 and end 2.
\<close>

theorem C5_counterexample:
  "seg_end (processChunk scripted_tracker \<lparr>chunk_text = ''x'', timestamp = (5, Some 2)\<rparr> 0) = 2
   \<and> start (processChunk scripted_tracker \<lparr>chunk_text = ''x'', timestamp = (5, Some 2)\<rparr> 0) = 5
   \<and> \<not> start (processChunk scripted_tracker \<lparr>chunk_text = ''x'', timestamp = (5, Some 2)\<rparr> 0)
        \<le> seg_end (processChunk scripted_tracker \<lparr>chunk_text = ''x'', timestamp = (5, Some 2)\<rparr> 0)"
proof -
  have "Math_round 5 = 5" and "Math_round 2 = 2" by (simp_all add: Math_round_eq_iff)
  then show ?thesis
    by (simp add: processChunk_def ToNumber_def js_or_def)
qed

text \<open>
  C5, as the code has it. With a stride that is not negative, a chunk whose end is
  absent, or present and not before its start, gives a segment with \<open>end \<ge> start\<close>.
\<close>

theorem C5_end_ge_start_amended:
  assumes "0 \<le> stride_length_s t" and "end_not_before_start c"
  shows "start (processChunk t c i) \<le> seg_end (processChunk t c i)"
proof -
  obtain s e where ts: "timestamp c = (s, e)" by (cases "timestamp c")
  have fb: "Math_round s \<le> Math_round (s + 9 / 10 * stride_length_s t)"
    using assms(1) by (intro Math_round_mono) simp
  show ?thesis
  proof (cases e)
    case None
    with ts fb show ?thesis
      by (simp add: processChunk_def ToNumber_def js_or_def Math_round_0)
  next
    case (Some x)
    with ts assms(2) have "s \<le> x" by (simp add: end_not_before_start_def)
    then have "Math_round s \<le> Math_round x" by (rule Math_round_mono)
    with ts Some fb show ?thesis
      by (simp add: processChunk_def ToNumber_def js_or_def)
  qed
qed

theorem C5_end_ge_start_amended_witness:
  "0 \<le> stride_length_s scripted_tracker
   \<and> end_not_before_start \<lparr>chunk_text = ''hello world'', timestamp = (0, Some 2)\<rparr>
   \<and> start (processChunk scripted_tracker \<lparr>chunk_text = ''hello world'', timestamp = (0, Some 2)\<rparr> 0) = 0
   \<and> seg_end (processChunk scripted_tracker \<lparr>chunk_text = ''hello world'', timestamp = (0, Some 2)\<rparr> 0) = 2"
proof -
  have h1: "0 \<le> stride_length_s scripted_tracker" by (simp add: scripted_tracker_def)
  have h2: "end_not_before_start \<lparr>chunk_text = ''hello world'', timestamp = (0, Some 2)\<rparr>"
    by (simp add: end_not_before_start_def)
  have v: "start (processChunk scripted_tracker \<lparr>chunk_text = ''hello world'', timestamp = (0, Some 2)\<rparr> 0) = 0
     \<and> seg_end (processChunk scripted_tracker \<lparr>chunk_text = ''hello world'', timestamp = (0, Some 2)\<rparr> 0) = 2"
    by (simp add: processChunk_def ToNumber_def js_or_def Math_round_eq_iff)
  show ?thesis
    using h1 h2 v C5_end_ge_start_amended [OF h1 h2, of 0] by simp
qed

text \<open>
  C6. The claim: N finalized chunks fed to a tracker give segments with the indices
  0, ..., N - 1. The number of segments is the number of timestamped chunks that the
  merge step returns, not the number of chunks fed: one chunk in which the engine
  recognised two segments gives the indices 0 and 1.
\<close>

theorem C6_counterexample:
  "new_GenerationTracker (Some segmenting_pipeline) 5 = Inr segmenting_tracker
   \<and> map_sum id (\<lambda>tr. map index (processed_chunks tr))
        (snd (feed segmenting_tracker
           [Chunk_callback [\<lparr>chunk_text = ''a'', timestamp = (0, Some 2)\<rparr>,
                            \<lparr>chunk_text = ''b'', timestamp = (2, Some 4)\<rparr>]]))
       = Inr [0, 1]
   \<and> length [Chunk_callback [\<lparr>chunk_text = ''a'', timestamp = (0, Some 2)\<rparr>,
                               \<lparr>chunk_text = ''b'', timestamp = (2, Some 4)\<rparr>]] = 1
   \<and> [0, 1] \<noteq> [0..<(1::nat)]"
proof -
  have a: "new_GenerationTracker (Some segmenting_pipeline) 5 = Inr segmenting_tracker"
    by (simp add: new_GenerationTracker_def segmenting_tracker_def segmenting_pipeline_def)
  have b: "map_sum id (\<lambda>tr. map index (processed_chunks tr))
        (snd (feed segmenting_tracker
           [Chunk_callback [\<lparr>chunk_text = ''a'', timestamp = (0, Some 2)\<rparr>,
                            \<lparr>chunk_text = ''b'', timestamp = (2, Some 4)\<rparr>]]))
       = Inr [0, 1]"
    by code_simp
  have c: "[0, 1] \<noteq> [0..<(1::nat)]" by simp
  show ?thesis
    by (intro conjI) (rule a, rule b, simp, rule c)
qed

text \<open>
  C6, as the code has it. For any sequence of finalized chunks fed to a fresh tracker,
  the indices of the segment list it ends with are 0, 1, ..., M - 1 in this order,
  where M, the length of that list, is the number of timestamped chunks that the merge
  step returns for all the data fed (0 when nothing was fed). When the merge step
  returns as many chunks as were fed, the indices are 0, 1, ..., N - 1 for the N
  chunks fed.
\<close>

theorem C6_indices_dense:
  assumes "new_GenerationTracker (Some p) stride = Inr t0"
    and "snd (feed t0 (map Chunk_callback ds)) = Inr tr"
  shows "map index (processed_chunks tr) = [0..<length (processed_chunks tr)]
   \<and> length (processed_chunks tr)
       = (if ds = [] then 0
          else length (snd (tokenizer_decode_asr p ds (time_precision t0))))
   \<and> chunks tr = ds
   \<and> (length (snd (tokenizer_decode_asr p ds (time_precision t0))) = length ds \<longrightarrow>
        map index (processed_chunks tr) = [0..<length ds])"
proof -
  from assms(1) have t0: "chunks t0 = []" "processed_chunks t0 = []" "pipeline t0 = p"
    by (auto simp: new_GenerationTracker_def)
  have c: "chunks tr = ds"
    using feed_chunks_only [OF assms(2)] t0 by simp
  have d: "processed_chunks tr
       = map_processChunk t0 (snd (tokenizer_decode_asr p ds (time_precision t0)))"
    if "ds \<noteq> []"
    using feed_chunks_processed [OF that assms(2)] t0 by simp
  have e: "processed_chunks tr = []" if "ds = []"
    using that assms(2) t0 by simp
  have l: "length (processed_chunks tr)
       = (if ds = [] then 0
          else length (snd (tokenizer_decode_asr p ds (time_precision t0))))"
    using d e by (simp add: length_map_processChunk)
  have i: "map index (processed_chunks tr) = [0..<length (processed_chunks tr)]"
  proof (cases "ds = []")
    case True
    then show ?thesis by (simp add: e)
  next
    case False
    then show ?thesis
      by (simp add: d index_map_processChunk length_map_processChunk)
  qed
  have n: "map index (processed_chunks tr) = [0..<length ds]"
    if "length (snd (tokenizer_decode_asr p ds (time_precision t0))) = length ds"
  proof (cases "ds = []")
    case True
    then show ?thesis by (simp add: e)
  next
    case False
    with i l that show ?thesis by simp
  qed
  from i l c n show ?thesis by blast
qed

theorem C6_indices_dense_witness:
  "new_GenerationTracker (Some scripted_pipeline) 5 = Inr scripted_tracker
   \<and> length (snd (tokenizer_decode_asr scripted_pipeline
        [\<lparr>chunk_text = ''a'', timestamp = (0, Some 2)\<rparr>,
         \<lparr>chunk_text = ''b'', timestamp = (2, Some 4)\<rparr>,
         \<lparr>chunk_text = ''c'', timestamp = (4, None)\<rparr>]
        (time_precision scripted_tracker)))
       = length [\<lparr>chunk_text = ''a'', timestamp = (0, Some 2)\<rparr>,
           \<lparr>chunk_text = ''b'', timestamp = (2, Some 4)\<rparr>,
           \<lparr>chunk_text = ''c'', timestamp = (4, None)\<rparr>]
   \<and> map_sum id (\<lambda>tr. map index (processed_chunks tr))
       (snd (feed scripted_tracker (map Chunk_callback
          [\<lparr>chunk_text = ''a'', timestamp = (0, Some 2)\<rparr>,
           \<lparr>chunk_text = ''b'', timestamp = (2, Some 4)\<rparr>,
           \<lparr>chunk_text = ''c'', timestamp = (4, None)\<rparr>])))
     = Inr [0, 1, 2]
   \<and> map_sum id (\<lambda>tr. map index (processed_chunks tr))
       (snd (feed scripted_tracker (map Chunk_callback [])))
     = Inr []"
proof -
  let ?ds = "[\<lparr>chunk_text = ''a'', timestamp = (0, Some 2)\<rparr>,
           \<lparr>chunk_text = ''b'', timestamp = (2, Some 4)\<rparr>,
           \<lparr>chunk_text = ''c'', timestamp = (4, None)\<rparr>]"
  have h1: "new_GenerationTracker (Some scripted_pipeline) 5 = Inr scripted_tracker"
    by (rule new_GenerationTracker_scripted)
  obtain tr where h2: "snd (feed scripted_tracker (map Chunk_callback ?ds)) = Inr tr"
    using feed_chunks_returns by blast
  have h3: "snd (feed scripted_tracker (map Chunk_callback [])) = Inr scripted_tracker"
    by simp
  have m: "length (snd (tokenizer_decode_asr scripted_pipeline ?ds (time_precision scripted_tracker)))
      = length ?ds"
    by (simp add: scripted_pipeline_def)
  note c6 = C6_indices_dense [OF h1 h2]
  from c6 m have a: "map index (processed_chunks tr) = [0..<length ?ds]"
    by blast
  have u: "[0..<length ?ds] = [0, 1, 2::nat]" by code_simp
  have r1: "map_sum id (\<lambda>tr. map index (processed_chunks tr))
       (snd (feed scripted_tracker (map Chunk_callback ?ds))) = Inr [0, 1, 2]"
    unfolding h2 using a u by simp
  have r2: "map_sum id (\<lambda>tr. map index (processed_chunks tr))
       (snd (feed scripted_tracker (map Chunk_callback []))) = Inr []"
    using C6_indices_dense [OF h1 h3]
    by (simp add: scripted_tracker_def)
  show ?thesis
    by (intro conjI) (rule h1, rule m, rule r1, rule r2)
qed


text \<open>
  C7. A beam callback posts a partial result exactly when the counter it has just
  incremented is a multiple of 10, the period of the source. So for a tracker that
  starts at counter 0 and beam arrays that are not empty, the first k callbacks post
  k div 10 partial results, for every k up to the length of the run: one at each
  tenth callback and none between. With 25 callbacks there are 2, the first at
  callback 10 and the second at callback 20.
\<close>

theorem C7_partial_results_throttled:
  assumes "callbackFunctionCounter t = 0" and "[] \<notin> set bs"
  shows "(\<forall>k\<le>length bs. length (fst (feed t (map Callback_function (take k bs)))) = k div 10)
   \<and> snd (feed t (map Callback_function bs))
       = Inr (t\<lparr>callbackFunctionCounter := length bs\<rparr>)
   \<and> callbackFunction u (b # rest) =
       Inr (u\<lparr>callbackFunctionCounter := callbackFunctionCounter u + 1\<rparr>,
            if (callbackFunctionCounter u + 1) mod 10 = 0
            then [RESULT_PARTIAL
                   \<lparr>partial_text = tokenizer_decode (pipeline u) (output_token_ids b),
                    partial_start = getLastChunkTimestamp u,
                    partial_end = Undefined\<rparr>]
            else [])"
proof -
  have "length (fst (feed t (map Callback_function (take k bs)))) = k div 10"
    if "k \<le> length bs" for k
  proof -
    have "[] \<notin> set (take k bs)" using assms(2) by (auto dest: in_set_takeD)
    then show ?thesis using that assms(1) by (simp add: feed_beams_count)
  qed
  then show ?thesis
    using assms by (simp add: feed_beams_counter callbackFunction_Cons)
qed

theorem C7_partial_results_throttled_witness:
  "callbackFunctionCounter scripted_tracker = 0
   \<and> [] \<notin> set (replicate 25 [\<lparr>output_token_ids = [1, 2]\<rparr>])
   \<and> length (fst (feed scripted_tracker
        (map Callback_function (replicate 25 [\<lparr>output_token_ids = [1, 2]\<rparr>])))) = 2
   \<and> length (fst (feed scripted_tracker
        (map Callback_function (replicate 9 [\<lparr>output_token_ids = [1, 2]\<rparr>])))) = 0
   \<and> length (fst (feed scripted_tracker
        (map Callback_function (replicate 10 [\<lparr>output_token_ids = [1, 2]\<rparr>])))) = 1
   \<and> length (fst (feed scripted_tracker
        (map Callback_function (replicate 19 [\<lparr>output_token_ids = [1, 2]\<rparr>])))) = 1
   \<and> length (fst (feed scripted_tracker
        (map Callback_function (replicate 20 [\<lparr>output_token_ids = [1, 2]\<rparr>])))) = 2"
proof -
  have h1: "callbackFunctionCounter scripted_tracker = 0" by (simp add: scripted_tracker_def)
  have h2: "[] \<notin> set (replicate 25 [\<lparr>output_token_ids = [1, 2]\<rparr>])" by simp
  note prefix_count = C7_partial_results_throttled [OF h1 h2, THEN conjunct1, rule_format]
  show ?thesis
    using h1 h2 prefix_count [of 25] prefix_count [of 9] prefix_count [of 10]
      prefix_count [of 19] prefix_count [of 20]
    by simp
qed


text \<open>
  C8. A chunk callback appends the chunk to the accumulation list and replaces the
  segment list, whatever it was before, by the one derived from the merge of the whole
  accumulation list: one segment for each chunk the merge step returns, with its
  position as index, the trimmed text, the rounded start and the rounded end or the
  stride fallback. It posts one result message, which carries that whole segment list
  with \<open>isDone = False\<close>.
\<close>

theorem C8_full_rederivation:
  "(let cs = snd (tokenizer_decode_asr (pipeline t) (chunks t @ [d]) (time_precision t));
        segs = map (\<lambda>i. \<lparr>index = i,
                     seg_text = trim (chunk_text (cs ! i)),
                     start = Math_round (fst (timestamp (cs ! i))),
                     seg_end = js_or (Math_round (ToNumber (snd (timestamp (cs ! i)))))
                                 (Math_round (fst (timestamp (cs ! i)) + 9 / 10 * stride_length_s t))\<rparr>)
                 [0..<length cs]
    in fst (chunkCallback t d) = t\<lparr>chunks := chunks t @ [d], processed_chunks := segs\<rparr>
       \<and> (\<exists>ts. snd (chunkCallback t d) = [RESULT segs False ts])
       \<and> chunkCallback (t\<lparr>processed_chunks := ps\<rparr>) d = chunkCallback t d)"
proof -
  have "map_processChunk (t\<lparr>processed_chunks := ps\<rparr>) = map_processChunk t"
    by (rule ext, rule map_processChunk_stride) simp
  then have a: "chunkCallback (t\<lparr>processed_chunks := ps\<rparr>) d = chunkCallback t d"
    by (simp add: chunkCallback_eq getLastChunkTimestamp_def)
  show ?thesis
    unfolding Let_def
    by (simp only: a, simp only: chunkCallback_eq map_processChunk_nth [symmetric], simp)
qed


text \<open>
  C9. For a chunk whose end timestamp is present but rounds to 0, the segment's end is
  the stride fallback \<open>Math_round (start + 0.9 * stride_length_s)\<close>.
\<close>

theorem C9_zero_rounded_end_fallback:
  "Math_round e = 0 \<Longrightarrow>
   seg_end (processChunk t \<lparr>chunk_text = tx, timestamp = (s, Some e)\<rparr> i)
     = Math_round (s + 9 / 10 * stride_length_s t)"
  by (simp add: processChunk_def ToNumber_def js_or_def)

theorem C9_zero_rounded_end_fallback_witness:
  "Math_round (2 / 5) = 0
   \<and> seg_end (processChunk scripted_tracker \<lparr>chunk_text = ''x'', timestamp = (5, Some (2 / 5))\<rparr> 0) = 10
   \<and> Math_round 0 = 0
   \<and> seg_end (processChunk scripted_tracker \<lparr>chunk_text = ''x'', timestamp = (5, Some 0)\<rparr> 0) = 10"
proof -
  have h1: "Math_round (2 / 5) = 0" by (simp add: Math_round_eq_iff)
  have h2: "Math_round 0 = 0" by (rule Math_round_0)
  have r: "Math_round (5 + 9 / 10 * stride_length_s scripted_tracker) = 10"
    by (simp add: Math_round_eq_iff scripted_tracker_def)
  show ?thesis
    using h1 h2 r
      C9_zero_rounded_end_fallback [OF h1, of scripted_tracker "''x''" 5 0]
      C9_zero_rounded_end_fallback [OF h2, of scripted_tracker "''x''" 5 0]
    by simp
qed

text \<open>
  C10. What the handler does (the instance slot it leaves, the messages it posts, how
  it ends) does not depend on the \<open>model_name\<close> of the request, and the library's
  pipeline constructor is only ever asked for the null model identifier: replacing
  its model argument by \<open>None\<close> changes nothing.
\<close>

theorem C10_model_name_ignored:
  "onmessage ir pf inst (ev\<lparr>model_name := m\<rparr>) = onmessage ir pf inst ev
   \<and> onmessage ir (\<lambda>tk mdl. pf tk None) inst ev = onmessage ir pf inst ev"
  by (simp add: onmessage_def transcribe_def getInstance_def)

end
